theory Spec2Isabelle
  imports Main "HOL-Library.Sublist"
begin

section \<open>Strings\<close>

text \<open>
  JavaScript strings are modelled as \<open>string\<close> (lists of 8-bit characters, the UTF-8
  bytes of the text).  All characters the server inspects (\<open>/ . % & < > " '\<close>) are
  ASCII, so they are single bytes that never occur inside a multi-byte sequence.
\<close>

definition startsWith :: "string \<Rightarrow> string \<Rightarrow> bool" where
  "startsWith s p = prefix p s"

text \<open>
  \<open>s.split(d)\<close>: the pieces of \<open>s\<close> between occurrences of \<open>d\<close>, empty ones included.
  The piece being read is accumulated in reverse.
\<close>

fun splitFrom :: "char \<Rightarrow> string \<Rightarrow> string \<Rightarrow> string list" where
  "splitFrom d piece [] = [rev piece]"
| "splitFrom d piece (c # cs) =
     (if c = d then rev piece # splitFrom d [] cs else splitFrom d (c # piece) cs)"

definition splitOn :: "char \<Rightarrow> string \<Rightarrow> string list" where
  "splitOn d s = splitFrom d [] s"

text \<open>\<open>xs.join(sep)\<close>.\<close>

fun join :: "string \<Rightarrow> string list \<Rightarrow> string" where
  "join sep [] = []"
| "join sep [x] = x"
| "join sep (x # y # ys) = x @ sep @ join sep (y # ys)"

text \<open>ASCII lower-casing, which is all \<open>toLowerCase\<close> does on the keys of the MIME table.\<close>

definition toLowerCase :: "string \<Rightarrow> string" where
  "toLowerCase s =
     map (\<lambda>c. let n = (of_char c :: nat) in
                if 65 \<le> n \<and> n \<le> 90 then char_of (n + 32) else c) s"

section \<open>Node's POSIX \<open>path\<close> module\<close>

text \<open>
  \<open>normalizeString(path, allowAboveRoot)\<close> walks the \<open>/\<close>-separated segments of the path:
  an empty segment and \<open>.\<close> are dropped, \<open>..\<close> removes the segment before it (and is
  dropped at the root, or kept when \<open>allowAboveRoot\<close> holds and nothing is left to
  remove), every other segment is kept.  The accumulator holds the kept segments, the
  last one first.
\<close>

fun normalizeSegments :: "bool \<Rightarrow> string list \<Rightarrow> string list \<Rightarrow> string list" where
  "normalizeSegments allowAboveRoot res [] = rev res"
| "normalizeSegments allowAboveRoot res (s # ss) =
     (if s = [] \<or> s = ''.'' then normalizeSegments allowAboveRoot res ss
      else if s = ''..'' then
        (case res of
           [] \<Rightarrow> normalizeSegments allowAboveRoot (if allowAboveRoot then [''..''] else []) ss
         | r # rs \<Rightarrow>
             if r = ''..''
             then normalizeSegments allowAboveRoot (if allowAboveRoot then ''..'' # res else res) ss
             else normalizeSegments allowAboveRoot rs ss)
      else normalizeSegments allowAboveRoot (s # res) ss)"

definition normalizeString :: "string \<Rightarrow> bool \<Rightarrow> string" where
  "normalizeString path allowAboveRoot =
     join ''/'' (normalizeSegments allowAboveRoot [] (splitOn (CHR ''/'') path))"

text \<open>
  The loop of \<open>path.resolve\<close>: the arguments from the last to the first and then the
  working directory, empty ones skipped, each put in front of what is resolved so far,
  until one of them is absolute.
\<close>

fun resolveLoop :: "string list \<Rightarrow> string \<Rightarrow> string \<times> bool" where
  "resolveLoop [] resolvedPath = (resolvedPath, False)"
| "resolveLoop (p # ps) resolvedPath =
     (if p = [] then resolveLoop ps resolvedPath
      else if hd p = CHR ''/'' then (p @ ''/'' @ resolvedPath, True)
      else resolveLoop ps (p @ ''/'' @ resolvedPath))"

definition path_resolve :: "string \<Rightarrow> string list \<Rightarrow> string" where
  "path_resolve cwd args =
     (case resolveLoop (rev args @ [cwd]) [] of
        (resolvedPath, resolvedAbsolute) \<Rightarrow>
          (let n = normalizeString resolvedPath (\<not> resolvedAbsolute)
           in if resolvedAbsolute then CHR ''/'' # n
              else if n \<noteq> [] then n else ''.''))"

text \<open>
  \<open>path.dirname\<close>: trailing slashes are not part of the last component; the result is
  the path up to the slash before the last component.
\<close>

definition path_dirname :: "string \<Rightarrow> string" where
  "path_dirname p =
     (if p = [] then ''.''
      else
        (let hasRoot = (hd p = CHR ''/'');
             trimmed = rev (dropWhile (\<lambda>c. c = CHR ''/'') (rev (tl p)))
         in if CHR ''/'' \<notin> set trimmed then (if hasRoot then ''/'' else ''.'')
            else
              (let res = hd p # rev (tl (dropWhile (\<lambda>c. c \<noteq> CHR ''/'') (rev trimmed)))
               in if hasRoot \<and> length res = 1 then ''//'' else res)))"

text \<open>\<open>path.basename\<close> (no suffix argument): the last component, trailing slashes ignored.\<close>

definition path_basename :: "string \<Rightarrow> string" where
  "path_basename p =
     rev (takeWhile (\<lambda>c. c \<noteq> CHR ''/'') (dropWhile (\<lambda>c. c = CHR ''/'') (rev p)))"

text \<open>
  \<open>path.extname\<close>: from the last dot of the last component to its end; empty when there
  is no dot, when the only dot is the component's first character, and for \<open>..\<close>.
\<close>

definition path_extname :: "string \<Rightarrow> string" where
  "path_extname p =
     (let b = path_basename p;
          ext = rev (takeWhile (\<lambda>c. c \<noteq> CHR ''.'') (rev b))
      in if CHR ''.'' \<notin> set b \<or> length ext + 1 = length b \<or> b = ''..'' then []
         else CHR ''.'' # ext)"

section \<open>\<open>decodeURIComponent\<close>\<close>

definition hexDigit :: "char \<Rightarrow> nat option" where
  "hexDigit c =
     (let n = (of_char c :: nat)
      in if 48 \<le> n \<and> n \<le> 57 then Some (n - 48)
         else if 65 \<le> n \<and> n \<le> 70 then Some (n - 55)
         else if 97 \<le> n \<and> n \<le> 102 then Some (n - 87)
         else None)"

text \<open>
  First pass: every \<open>%XX\<close> becomes the octet it names, every other character stands
  for itself.  A \<open>%\<close> that is not followed by two hexadecimal digits is a \<open>URIError\<close>
  (\<open>None\<close>).
\<close>

datatype octet = Literal char | Escaped nat

fun percentOctets :: "string \<Rightarrow> octet list option" where
  "percentOctets [] = Some []"
| "percentOctets (c # cs) =
     (if c = CHR ''%'' then
        (case cs of
           h1 # h2 # rest \<Rightarrow>
             (case (hexDigit h1, hexDigit h2) of
                (Some a, Some b) \<Rightarrow> map_option ((#) (Escaped (16 * a + b))) (percentOctets rest)
              | _ \<Rightarrow> None)
         | _ \<Rightarrow> None)
      else map_option ((#) (Literal c)) (percentOctets cs))"

text \<open>
  Whether the octets of one escaped sequence are the UTF-8 encoding of a code point:
  not over-long, not a surrogate, at most U+10FFFF.
\<close>

definition validCodePoint :: "nat list \<Rightarrow> bool" where
  "validCodePoint bs =
     (case bs of
        [b0, b1] \<Rightarrow> 128 \<le> (b0 - 192) * 64 + (b1 - 128)
      | [b0, b1, b2] \<Rightarrow>
          (let cp = (b0 - 224) * 4096 + (b1 - 128) * 64 + (b2 - 128)
           in 2048 \<le> cp \<and> \<not> (55296 \<le> cp \<and> cp \<le> 57343))
      | [b0, b1, b2, b3] \<Rightarrow>
          (let cp = (b0 - 240) * 262144 + (b1 - 128) * 4096 + (b2 - 128) * 64 + (b3 - 128)
           in 65536 \<le> cp \<and> cp \<le> 1114111)
      | _ \<Rightarrow> False)"

text \<open>The number of octets of the sequence a lead octet starts (0: not a lead octet).\<close>

definition sequenceLength :: "nat \<Rightarrow> nat" where
  "sequenceLength b =
     (if 192 \<le> b \<and> b < 224 then 2
      else if 224 \<le> b \<and> b < 240 then 3
      else if 240 \<le> b \<and> b < 248 then 4 else 0)"

definition continuation :: "octet \<Rightarrow> bool" where
  "continuation t = (case t of Literal c \<Rightarrow> False | Escaped b \<Rightarrow> 128 \<le> b \<and> b < 192)"

definition octetValue :: "octet \<Rightarrow> nat" where
  "octetValue t = (case t of Literal c \<Rightarrow> of_char c | Escaped b \<Rightarrow> b)"

definition sequenceOk :: "nat \<Rightarrow> octet list \<Rightarrow> bool" where
  "sequenceOk b ts =
     (let n = sequenceLength b; conts = take (n - 1) ts
      in n \<noteq> 0 \<and> length conts = n - 1
         \<and> list_all continuation conts
         \<and> validCodePoint (b # map octetValue conts))"

text \<open>
  Second pass: a character that was not escaped and an escaped octet below 128 are
  that character; an escaped lead octet must be followed by the right number of
  escaped continuation octets and encode a code point, otherwise the call throws.
\<close>

fun utf8Octets :: "octet list \<Rightarrow> string option" where
  "utf8Octets [] = Some []"
| "utf8Octets (Literal c # ts) = map_option ((#) c) (utf8Octets ts)"
| "utf8Octets (Escaped b # ts) =
     (if b < 128 then map_option ((#) (char_of b)) (utf8Octets ts)
      else if sequenceOk b ts
      then map_option ((@) (map char_of (b # map octetValue (take (sequenceLength b - 1) ts))))
             (utf8Octets (drop (sequenceLength b - 1) ts))
      else None)"

definition decodeURIComponent :: "string \<Rightarrow> string option" where
  "decodeURIComponent s = (case percentOctets s of None \<Rightarrow> None | Some ts \<Rightarrow> utf8Octets ts)"

section \<open>The HTML template (\<open>htmlTemplate.js\<close>)\<close>

definition lines :: "string list \<Rightarrow> string" where
  "lines ls = join ''\<newline>'' ls"

definition CONTAINER_CSS :: string where
  \<open>CONTAINER_CSS = lines
    ['':root {'',
     ''  color-scheme: light;'',
     ''}'',
     [],
     ''/* Force light mode - override any dark mode styles */'',
     ''body {'',
     ''  box-sizing: border-box;'',
     ''  min-width: 200px;'',
     ''  max-width: 980px;'',
     ''  margin: 0 auto;'',
     ''  padding: 45px;'',
     ''  background-color: #ffffff !important;'',
     ''  color: #24292f !important;'',
     ''  color-scheme: light;'',
     ''}'',
     [],
     ''@media (max-width: 767px) {'',
     ''  body {'',
     ''    padding: 15px;'',
     ''  }'',
     ''}'',
     [],
     ''.markdown-body {'',
     ''  box-sizing: border-box;'',
     ''  color-scheme: light;'',
     ''  background-color: #ffffff !important;'',
     ''  color: #24292f !important;'',
     ''}'',
     [],
     ''/* Override dark mode media query */'',
     ''@media (prefers-color-scheme: dark) {'',
     ''  body,'',
     ''  .markdown-body {'',
     ''    background-color: #ffffff !important;'',
     ''    color: #24292f !important;'',
     ''  }'',
     ''}'']\<close>

text \<open>The single quote of the script's string literals.\<close>

definition q :: string where
  "q = [CHR 0x27]"

definition SSE_CLIENT_SCRIPT :: string where
  \<open>SSE_CLIENT_SCRIPT = lines
    [''(function() {'',
     ''  const eventSource = new EventSource('' @ q @ ''/events'' @ q @ '');'',
     [],
     ''  eventSource.onmessage = function(event) {'',
     ''    if (event.data === '' @ q @ ''reload'' @ q @ '') {'',
     ''      console.log('' @ q @ ''File changed, reloading...'' @ q @ '');'',
     ''      location.reload();'',
     ''    }'',
     ''  };'',
     [],
     ''  eventSource.onerror = function(error) {'',
     ''    console.error('' @ q @ ''SSE connection error:'' @ q @ '', error);'',
     ''    // EventSource automatically attempts to reconnect'',
     ''  };'',
     [],
     ''  // Log when connection is established'',
     ''  eventSource.onopen = function() {'',
     ''    console.log('' @ q @ ''Live reload connected'' @ q @ '');'',
     ''  };'',
     ''})();'']\<close>

text \<open>
  \<open>escapeHtml\<close>: \<open>text.replace(/[&<>"']/g, char => htmlEscapes[char])\<close>.  Every character
  of the class is replaced by its entry of the table; a character of the class with no
  entry would be replaced by the text \<open>undefined\<close>.
\<close>

definition htmlEscapes :: "(char \<times> string) list" where
  \<open>htmlEscapes =
     [(CHR ''&'', ''&amp;''),
      (CHR ''<'', ''&lt;''),
      (CHR ''>'', ''&gt;''),
      (CHR 0x22, ''&quot;''),
      (CHR 0x27, ''&#39;'')]\<close>

definition escapeClass :: "char list" where
  \<open>escapeClass = [CHR ''&'', CHR ''<'', CHR ''>'', CHR 0x22, CHR 0x27]\<close>

definition escapeChar :: "char \<Rightarrow> string" where
  "escapeChar c =
     (if c \<in> set escapeClass
      then (case map_of htmlEscapes c of Some e \<Rightarrow> e | None \<Rightarrow> ''undefined'')
      else [c])"

definition escapeHtml :: "string \<Rightarrow> string" where
  "escapeHtml text = concat (map escapeChar text)"

text \<open>
  \<open>generateHtml(renderedContent, {filename, watch})\<close>.  The stylesheet that
  \<open>loadGithubMarkdownCss\<close> reads from \<open>node_modules\<close> (the empty string when it cannot be
  read) is the parameter \<open>css\<close>.  The function has no failing path.
\<close>

definition generateHtml :: "string \<Rightarrow> string \<Rightarrow> string \<Rightarrow> bool \<Rightarrow> string" where
  \<open>generateHtml css renderedContent filename watch = lines
    [''<!DOCTYPE html>'',
     ''<html lang="en">'',
     ''<head>'',
     ''  <meta charset="UTF-8">'',
     ''  <meta name="viewport" content="width=device-width, initial-scale=1">'',
     ''  <meta name="color-scheme" content="light">'',
     ''  <title>'' @ escapeHtml filename @ ''</title>'',
     [],
     ''  <!-- GitHub Markdown CSS (inlined) -->'',
     ''  <style>'',
     css,
     ''  </style>'',
     [],
     ''  <!-- Container and responsive styles -->'',
     ''  <style>'',
     CONTAINER_CSS,
     ''  </style>'',
     [],
     ''  <!-- GitHub-style syntax highlighting theme -->'',
     ''  <link rel="stylesheet" href="https://cdnjs.cloudflare.com/ajax/libs/highlight.js/11.9.0/styles/github.min.css" integrity="sha512-0aPQyyeZrWj9sCA46UlmWgKOP0mUipLQ6OZXu8l4IcAmD2u31EPEy9VcIMvl7SoAaKe8bLXZhYoMaE/in+gcgA==" crossorigin="anonymous" referrerpolicy="no-referrer">'',
     ''</head>'',
     ''<body>'',
     ''  <article class="markdown-body">'',
     renderedContent,
     ''  </article>'',
     [],
     ''  '' @ (if watch
             then lines [''<!-- Live reload script -->'', ''  <script>'', SSE_CLIENT_SCRIPT, ''  </script>'']
             else []),
     ''</body>'',
     ''</html>'']\<close>

section \<open>Rendering (\<open>renderMarkdown.js\<close>)\<close>

datatype error =
    FileTooLarge nat
  | SystemError string
  | ProcessingError string
  | WriteError string
  | PortInUse nat
  | ServerNotRunning

text \<open>
  What one render sees of the world outside the program: the result of \<open>stat\<close> (the
  size, or the error it throws), of \<open>readFile\<close>, of the unified/remark/rehype pipeline
  on a source text, and the stylesheet.
\<close>

record io =
  stat :: "string \<Rightarrow> error + nat"
  readFile :: "string \<Rightarrow> error + string"
  process :: "string \<Rightarrow> error + string"
  githubCss :: string

definition MAX_FILE_SIZE :: nat where
  "MAX_FILE_SIZE = 10 * 1024 * 1024"

definition renderMarkdown :: "io \<Rightarrow> string \<Rightarrow> error + string" where
  "renderMarkdown w filePath =
     (case stat w filePath of
        Inl e \<Rightarrow> Inl e
      | Inr stats_size \<Rightarrow>
          if stats_size > MAX_FILE_SIZE then Inl (FileTooLarge stats_size)
          else
            (case readFile w filePath of
               Inl e \<Rightarrow> Inl e
             | Inr content \<Rightarrow> process w content))"

definition getBaseDir :: "string \<Rightarrow> string \<Rightarrow> string" where
  "getBaseDir cwd filePath = path_dirname (path_resolve cwd [filePath])"

section \<open>The server (\<open>server.js\<close>)\<close>

definition MIME_TYPES :: "(string \<times> string) list" where
  "MIME_TYPES =
     [(''.html'', ''text/html''),
      (''.css'', ''text/css''),
      (''.js'', ''application/javascript''),
      (''.json'', ''application/json''),
      (''.png'', ''image/png''),
      (''.jpg'', ''image/jpeg''),
      (''.jpeg'', ''image/jpeg''),
      (''.gif'', ''image/gif''),
      (''.svg'', ''image/svg+xml''),
      (''.webp'', ''image/webp''),
      (''.ico'', ''image/x-icon''),
      (''.pdf'', ''application/pdf''),
      (''.txt'', ''text/plain''),
      (''.md'', ''text/markdown'')]"

definition getMimeType :: "string \<Rightarrow> string" where
  "getMimeType filePath =
     (case map_of MIME_TYPES (toLowerCase (path_extname filePath)) of
        Some m \<Rightarrow> m
      | None \<Rightarrow> ''application/octet-stream'')"

text \<open>
  A viewer connection is the response object of its request; it is identified by a
  number.  The JavaScript \<open>Set\<close> of connections iterates in insertion order, so it is a
  list without repetitions: \<open>add\<close> appends an element that is not there yet, \<open>delete\<close>
  removes it and does nothing (and raises nothing) when it is absent.
\<close>

type_synonym client = nat

definition set_add :: "'a \<Rightarrow> 'a list \<Rightarrow> 'a list" where
  "set_add x xs = (if x \<in> set xs then xs else xs @ [x])"

definition set_delete :: "'a \<Rightarrow> 'a list \<Rightarrow> 'a list" where
  "set_delete x xs = removeAll x xs"

text \<open>
  What \<open>client.write\<close> does with a chunk is decided outside the program: the chunk
  reaches the viewer, or the connection is gone and the call returns without delivering
  it, or the call throws.
\<close>

datatype writeResult = Delivered | Dropped | Throws error

datatype logline = ConsoleLog string | ConsoleError string error

text \<open>
  The body of a response: ended with some data (\<open>res.end(data)\<close>, where the data may be
  \<open>null\<close>), the contents of a file piped into it, what was piped of a file before its
  stream failed followed by the data the response was ended with, or left open after a
  first chunk.
\<close>

datatype body = End "string option" | Stream string | StreamEnded string string | Open string

record response =
  statusCode :: nat
  headers :: "(string \<times> string) list"
  body :: body

record options =
  opt_port :: "nat option"
  opt_watch :: "bool option"

text \<open>
  The variables of the closure that \<open>createServer\<close> builds, with the process's working
  directory and whether the HTTP server is listening.  The last five fields are not
  variables of the program; they record what it did: how many renders were started, how
  many of them have not settled yet, the chunks delivered to viewers, the connections
  ended by \<open>close\<close>, and the console output.
\<close>

record server =
  cwd :: string
  port :: nat
  watch :: bool
  absoluteFilePath :: string
  baseDir :: string
  filename :: string
  cachedHtml :: "string option"
  sseClients :: "client list"
  fileWatcher :: bool
  listening :: bool
  rendersStarted :: nat
  rendersInFlight :: nat
  delivered :: "(client \<times> string) list"
  ended :: "client list"
  console :: "logline list"

definition updateRenderedHtml :: "io \<Rightarrow> server \<Rightarrow> (error + string) \<times> server" where
  "updateRenderedHtml w s =
     (case renderMarkdown w (absoluteFilePath s) of
        Inl e \<Rightarrow> (Inl e, s\<lparr>console := console s @ [ConsoleError ''Error rendering markdown:'' e]\<rparr>)
      | Inr renderedContent \<Rightarrow>
          (let html = generateHtml (githubCss w) renderedContent (filename s) (watch s)
           in (Inr html, s\<lparr>cachedHtml := Some html\<rparr>)))"

text \<open>
  The loop \<open>for (const client of sseClients) client.write('data: reload\n\n')\<close>.  A call
  that throws leaves the loop with the exception.
\<close>

fun notifyClients :: "(client \<Rightarrow> writeResult) \<Rightarrow> client list \<Rightarrow> server \<Rightarrow> (error + unit) \<times> server" where
  "notifyClients wr [] s = (Inr (), s)"
| "notifyClients wr (c # cs) s =
     (case wr c of
        Delivered \<Rightarrow>
          notifyClients wr cs (s\<lparr>delivered := delivered s @ [(c, ''data: reload\<newline>\<newline>'')]\<rparr>)
      | Dropped \<Rightarrow> notifyClients wr cs s
      | Throws e \<Rightarrow> (Inl e, s))"

text \<open>
  The listener of the watcher's \<open>change\<close> event is an \<open>async\<close> function.  Node runs it
  on its single thread up to the first operation it has to wait for (the \<open>stat\<close> inside
  \<open>renderMarkdown\<close>): this is \<open>changeHandler_begin\<close>.  Other events are handled while the
  render waits for the file system.  When the render has its result the listener goes
  on to the end: this is \<open>changeHandler_resume\<close>.  Nothing between the two touches
  \<open>cachedHtml\<close> or \<open>sseClients\<close>.
\<close>

definition changeHandler_begin :: "server \<Rightarrow> server" where
  "changeHandler_begin s =
     s\<lparr>console := console s @ [ConsoleLog ''File changed, re-rendering...''],
       rendersStarted := Suc (rendersStarted s),
       rendersInFlight := Suc (rendersInFlight s)\<rparr>"

definition changeHandler_resume :: "io \<Rightarrow> (client \<Rightarrow> writeResult) \<Rightarrow> server \<Rightarrow> server" where
  "changeHandler_resume w wr s =
     (case updateRenderedHtml w (s\<lparr>rendersInFlight := rendersInFlight s - 1\<rparr>) of
        (Inl e, s1) \<Rightarrow>
          s1\<lparr>console := console s1 @ [ConsoleError ''Error re-rendering after file change:'' e]\<rparr>
      | (Inr html, s1) \<Rightarrow>
          (case notifyClients wr (sseClients s1)
                  (s1\<lparr>console := console s1 @ [ConsoleLog ''Re-render complete'']\<rparr>) of
             (Inl e, s2) \<Rightarrow>
               s2\<lparr>console := console s2 @ [ConsoleError ''Error re-rendering after file change:'' e]\<rparr>
           | (Inr u, s2) \<Rightarrow> s2))"

definition notFound :: response where
  "notFound =
     \<lparr>statusCode = 404, headers = [(''Content-Type'', ''text/plain'')],
      body = End (Some ''404 Not Found'')\<rparr>"

definition forbidden :: response where
  "forbidden =
     \<lparr>statusCode = 403, headers = [(''Content-Type'', ''text/plain'')],
      body = End (Some ''403 Forbidden: Access denied'')\<rparr>"

text \<open>
  \<open>requestHandler(req, res)\<close>: \<open>res\<close> is the connection, \<open>url\<close> is \<open>req.url\<close>, and
  \<open>access path\<close> says whether \<open>access(path, R_OK)\<close> succeeds.  A \<open>URIError\<close> of
  \<open>decodeURIComponent\<close> and a failing \<open>access\<close> are caught by the same handler (404).
  The listener that removes the connection when the request closes is the event
  \<open>ConnectionClosed\<close> below, and the listener for an error of the file's stream is
  \<open>streamErrorHandler\<close>.
\<close>

definition requestHandler :: "(string \<Rightarrow> bool) \<Rightarrow> server \<Rightarrow> client \<Rightarrow> string \<Rightarrow> response \<times> server" where
  "requestHandler access s res url =
     (if url = ''/'' then
        (\<lparr>statusCode = 200, headers = [(''Content-Type'', ''text/html; charset=utf-8'')],
          body = End (cachedHtml s)\<rparr>, s)
      else if watch s \<and> url = ''/events'' then
        (\<lparr>statusCode = 200,
          headers = [(''Content-Type'', ''text/event-stream''),
                     (''Cache-Control'', ''no-cache''),
                     (''Connection'', ''keep-alive''),
                     (''Access-Control-Allow-Origin'', ''*'')],
          body = Open '': connected\<newline>\<newline>''\<rparr>,
         s\<lparr>sseClients := set_add res (sseClients s)\<rparr>)
      else if startsWith url ''/assets/'' then
        (case decodeURIComponent (drop (length ''/assets/'') url) of
           None \<Rightarrow> (notFound, s)
         | Some relativePath \<Rightarrow>
             (let assetPath = path_resolve (cwd s) [baseDir s, relativePath]
              in if \<not> startsWith assetPath (baseDir s) then (forbidden, s)
                 else if \<not> access assetPath then (notFound, s)
                 else
                   (\<lparr>statusCode = 200, headers = [(''Content-Type'', getMimeType assetPath)],
                     body = Stream assetPath\<rparr>, s)))
      else (notFound, s))"

text \<open>
  The listener of the \<open>error\<close> event of the stream that the asset branch pipes into the
  response.  It runs after \<open>requestHandler\<close> has returned, when reading the file fails
  (the path is a directory, or the file goes away): it logs the error, writes the head
  of a 500 response unless the head is already sent, and ends the response with a text.
  \<open>headersSent\<close> is \<open>res.headersSent\<close>; in the asset branch \<open>writeHead(200, ...)\<close> has
  been called before the stream is created.
\<close>

definition streamErrorHandler :: "bool \<Rightarrow> error \<Rightarrow> response \<Rightarrow> server \<Rightarrow> response \<times> server" where
  "streamErrorHandler headersSent e r s =
     ((if headersSent then r
       else r\<lparr>statusCode := 500, headers := [(''Content-Type'', ''text/plain'')]\<rparr>)
        \<lparr>body := (case body r of
                    Stream path \<Rightarrow> StreamEnded path ''500 Internal Server Error''
                  | b \<Rightarrow> b)\<rparr>,
      s\<lparr>console := console s @ [ConsoleError ''Error streaming file:'' e]\<rparr>)"

text \<open>
  \<open>close()\<close>: stops the watcher, ends every connection, clears the set and closes the
  HTTP server, whose \<open>close\<close> reports an error when the server is not running.
\<close>

definition close :: "server \<Rightarrow> (error + unit) \<times> server" where
  "close s =
     (let s1 = s\<lparr>fileWatcher := False, ended := ended s @ sseClients s, sseClients := []\<rparr>
      in if listening s1 then (Inr (), s1\<lparr>listening := False\<rparr>) else (Inl ServerNotRunning, s1))"

text \<open>
  \<open>createServer(filePath, options)\<close>.  \<open>listen p\<close> is the error code the HTTP server
  emits when asked to listen on port \<open>p\<close>, if any.  The result is what the promise
  settles with and the closure's variables at that moment.
\<close>

definition createServer :: "string \<Rightarrow> io \<Rightarrow> (nat \<Rightarrow> string option) \<Rightarrow> string \<Rightarrow> options \<Rightarrow> (error + unit) \<times> server" where
  "createServer dir w listen filePath opts =
     (let s0 = \<lparr>cwd = dir,
                port = (case opt_port opts of None \<Rightarrow> 3000 | Some p \<Rightarrow> p),
                watch = (case opt_watch opts of None \<Rightarrow> False | Some b \<Rightarrow> b),
                absoluteFilePath = path_resolve dir [filePath],
                baseDir = getBaseDir dir (path_resolve dir [filePath]),
                filename = path_basename (path_resolve dir [filePath]),
                cachedHtml = None,
                sseClients = [],
                fileWatcher = False,
                listening = False,
                rendersStarted = 1,
                rendersInFlight = 0,
                delivered = [],
                ended = [],
                console = []\<rparr>
      in case updateRenderedHtml w s0 of
           (Inl e, s1) \<Rightarrow> (Inl e, s1)
         | (Inr html, s1) \<Rightarrow>
             (let s2 = (if watch s1 then s1\<lparr>fileWatcher := True\<rparr> else s1)
              in case listen (port s2) of
                   None \<Rightarrow> (Inr (), s2\<lparr>listening := True\<rparr>)
                 | Some code \<Rightarrow>
                     (if code = ''EADDRINUSE'' then Inl (PortInUse (port s2))
                      else Inl (SystemError code), s2)))"

section \<open>Events\<close>

text \<open>
  What happens to a running server: a request arrives, the request of a connection
  closes, the stream of a file that is being served fails, the watched file changes, a
  render that was started gets its result, the server is closed.  The watcher emits
  changes only while it is running; a render can only settle if one is in flight.
\<close>

datatype event =
    Request "string \<Rightarrow> bool" client string
  | ConnectionClosed client
  | StreamFailed error response
  | FileChanged
  | RenderSettled io "client \<Rightarrow> writeResult"
  | Close

fun step :: "server \<Rightarrow> event \<Rightarrow> server" where
  "step s (Request access res url) = snd (requestHandler access s res url)"
| "step s (ConnectionClosed res) = s\<lparr>sseClients := set_delete res (sseClients s)\<rparr>"
| "step s (StreamFailed e r) = snd (streamErrorHandler True e r s)"
| "step s FileChanged = (if fileWatcher s then changeHandler_begin s else s)"
| "step s (RenderSettled w wr) =
     (if 0 < rendersInFlight s then changeHandler_resume w wr s else s)"
| "step s Close = snd (close s)"

definition run :: "server \<Rightarrow> event list \<Rightarrow> server" where
  "run s evs = foldl step s evs"

section \<open>Notions used in the properties\<close>

text \<open>
  A path lies inside a directory when the directory's components are the first
  components of the path.  This is what "does not escape the base directory" means; it
  is not what the server tests (the server tests \<open>startsWith\<close> on the two strings).
\<close>

definition components :: "string \<Rightarrow> string list" where
  "components p = filter (\<lambda>seg. seg \<noteq> []) (splitOn (CHR ''/'') p)"

definition insideDirectory :: "string \<Rightarrow> string \<Rightarrow> bool" where
  "insideDirectory dir p = prefix (components dir) (components p)"

text \<open>Everything of the server but the snapshot, the delivered chunks and the console.\<close>

definition unchanged :: "server \<Rightarrow> server \<Rightarrow> bool" where
  "unchanged s t =
     (cwd t = cwd s \<and> port t = port s \<and> watch t = watch s
      \<and> absoluteFilePath t = absoluteFilePath s \<and> baseDir t = baseDir s
      \<and> filename t = filename s \<and> sseClients t = sseClients s
      \<and> fileWatcher t = fileWatcher s \<and> listening t = listening s
      \<and> rendersStarted t = rendersStarted s \<and> rendersInFlight t = rendersInFlight s
      \<and> ended t = ended s)"

text \<open>The chunk that tells a viewer to reload.\<close>

definition reload :: string where
  "reload = ''data: reload\<newline>\<newline>''"

fun isFileChanged :: "event \<Rightarrow> bool" where
  "isFileChanged FileChanged = True"
| "isFileChanged ev = False"

fun isClose :: "event \<Rightarrow> bool" where
  "isClose Close = True"
| "isClose ev = False"

text \<open>
  A concrete world and server for the examples: the file \<open>/home/user/docs/readme.md\<close>
  holds one heading, and the server is created for it in watch mode from the directory
  \<open>/home/user\<close>.
\<close>

definition exampleIo :: io where
  \<open>exampleIo =
     \<lparr>stat = (\<lambda>p. if p = ''/home/user/docs/readme.md'' then Inr 7
                  else Inl (SystemError ''ENOENT'')),
      readFile = (\<lambda>p. if p = ''/home/user/docs/readme.md'' then Inr ''# Title''
                      else Inl (SystemError ''ENOENT'')),
      process = (\<lambda>src. if src = ''# Title'' then Inr ''<h1 id="title">Title</h1>''
                        else Inl (ProcessingError ''unexpected source'')),
      githubCss = []\<rparr>\<close>

definition exampleServer :: server where
  "exampleServer =
     snd (createServer ''/home/user'' exampleIo (\<lambda>p. None) ''docs/readme.md''
            \<lparr>opt_port = None, opt_watch = Some True\<rparr>)"

section \<open>Auxiliary facts\<close>

lemmas eval_request = requestHandler_def startsWith_def decodeURIComponent_def hexDigit_def
  char_of_eq_iff path_resolve_def normalizeString_def splitOn_def getMimeType_def MIME_TYPES_def
  path_extname_def path_basename_def toLowerCase_def

lemma updateRenderedHtml_unchanged:
  "updateRenderedHtml w s = (r, t) \<Longrightarrow> unchanged s t \<and> delivered t = delivered s"
  by (auto simp: updateRenderedHtml_def unchanged_def Let_def split: sum.splits)

lemma notifyClients_unchanged:
  "notifyClients wr cs s = (r, t) \<Longrightarrow> unchanged s t \<and> cachedHtml t = cachedHtml s"
proof (induction cs arbitrary: s)
  case Nil
  then show ?case by (simp add: unchanged_def)
next
  case (Cons c cs)
  show ?case
  proof (cases "wr c")
    case Delivered
    with Cons.prems Cons.IH [of "s\<lparr>delivered := delivered s @ [(c, ''data: reload\<newline>\<newline>'')]\<rparr>"]
    show ?thesis by (simp add: unchanged_def)
  next
    case Dropped
    with Cons.prems Cons.IH [of s] show ?thesis by simp
  next
    case (Throws e)
    with Cons.prems show ?thesis by (auto simp: unchanged_def)
  qed
qed

lemma changeHandler_resume_unchanged:
  "sseClients (changeHandler_resume w wr s) = sseClients s"
  "watch (changeHandler_resume w wr s) = watch s"
  "fileWatcher (changeHandler_resume w wr s) = fileWatcher s"
  "listening (changeHandler_resume w wr s) = listening s"
  "baseDir (changeHandler_resume w wr s) = baseDir s"
  "cwd (changeHandler_resume w wr s) = cwd s"
  "rendersStarted (changeHandler_resume w wr s) = rendersStarted s"
  "rendersInFlight (changeHandler_resume w wr s) = rendersInFlight s - 1"
  by (auto simp: changeHandler_resume_def unchanged_def split: prod.splits sum.splits
           dest!: updateRenderedHtml_unchanged notifyClients_unchanged)

lemma exampleServer_created:
  "createServer ''/home/user'' exampleIo (\<lambda>p. None) ''docs/readme.md''
       \<lparr>opt_port = None, opt_watch = Some True\<rparr> = (Inr (), exampleServer)"
  "watch exampleServer" "fileWatcher exampleServer" "listening exampleServer"
  "sseClients exampleServer = []" "rendersInFlight exampleServer = 0"
  "rendersStarted exampleServer = 1" "delivered exampleServer = []"
  "absoluteFilePath exampleServer = ''/home/user/docs/readme.md''"
  "baseDir exampleServer = ''/home/user/docs''"
  "filename exampleServer = ''readme.md''"
  "cachedHtml exampleServer = Some (generateHtml [] ''<h1 id=\"title\">Title</h1>'' ''readme.md'' True)"
  by (simp_all add: exampleServer_def createServer_def updateRenderedHtml_def renderMarkdown_def
        exampleIo_def MAX_FILE_SIZE_def path_resolve_def normalizeString_def splitOn_def
        getBaseDir_def path_dirname_def path_basename_def Let_def)

lemma escapeChar_cases:
  "escapeChar c =
     (if c = CHR ''&'' then ''&amp;''
      else if c = CHR ''<'' then ''&lt;''
      else if c = CHR ''>'' then ''&gt;''
      else if c = CHR 0x22 then ''&quot;''
      else if c = CHR 0x27 then ''&#39;''
      else [c])"
  by (simp add: escapeChar_def escapeClass_def htmlEscapes_def)

lemma escapeHtml_Nil: "escapeHtml [] = []"
  by (simp add: escapeHtml_def)

lemma escapeHtml_Cons: "escapeHtml (c # cs) = escapeChar c @ escapeHtml cs"
  by (simp add: escapeHtml_def)

lemma escapeChar_no_markup:
  "CHR ''<'' \<notin> set (escapeChar c) \<and> CHR ''>'' \<notin> set (escapeChar c)
   \<and> CHR 0x22 \<notin> set (escapeChar c) \<and> CHR 0x27 \<notin> set (escapeChar c)"
  by (simp add: escapeChar_cases)

lemma escapeHtml_no_markup:
  "CHR ''<'' \<notin> set (escapeHtml t) \<and> CHR ''>'' \<notin> set (escapeHtml t)
   \<and> CHR 0x22 \<notin> set (escapeHtml t) \<and> CHR 0x27 \<notin> set (escapeHtml t)"
  using escapeChar_no_markup by (induction t) (simp_all add: escapeHtml_Nil escapeHtml_Cons)

section \<open>Asset requests\<close>

text \<open>
  What the test of \<open>requestHandler\<close> guarantees: a file is streamed only if its resolved
  path has the base directory's string as a prefix and is readable.
\<close>

lemma streamed_startsWith_baseDir:
  "body (fst (requestHandler access s res url)) = Stream p \<Longrightarrow>
     startsWith p (baseDir s) \<and> access p"
  by (auto simp: requestHandler_def notFound_def forbidden_def Let_def
           split: if_splits option.splits)

text \<open>
  The two examples of the specification: with base directory \<open>/docs\<close>, the reference
  \<open>../../etc/passwd\<close> is answered 403, and \<open>./img/a.png\<close> resolves to \<open>/docs/img/a.png\<close>,
  which is streamed when it is readable.
\<close>

lemma asset_traversal_rejected:
  "requestHandler access (s\<lparr>baseDir := ''/docs''\<rparr>) res ''/assets/../../etc/passwd'' =
     (forbidden, s\<lparr>baseDir := ''/docs''\<rparr>)"
  by (simp add: eval_request)

lemma asset_inside_accepted:
  "requestHandler (\<lambda>p. p = ''/docs/img/a.png'') (s\<lparr>baseDir := ''/docs''\<rparr>) res
       ''/assets/./img/a.png'' =
     (\<lparr>statusCode = 200, headers = [(''Content-Type'', ''image/png'')],
       body = Stream ''/docs/img/a.png''\<rparr>, s\<lparr>baseDir := ''/docs''\<rparr>)"
  by (simp add: eval_request)

lemma percent_encoded_sibling_served:
  "requestHandler (\<lambda>p. True) (s\<lparr>baseDir := ''/docs''\<rparr>) res
       ''/assets/..%2Fdocs-evil%2Fsecret.txt'' =
     (\<lparr>statusCode = 200, headers = [(''Content-Type'', ''text/plain'')],
       body = Stream ''/docs-evil/secret.txt''\<rparr>, s\<lparr>baseDir := ''/docs''\<rparr>)"
  by (simp add: eval_request)

text \<open>
  When the stream of a file that is being served fails, the response keeps the status
  and the head it was given and is ended with the text of the error.
\<close>

lemma asset_stream_error:
  "streamErrorHandler True e \<lparr>statusCode = 200, headers = hs, body = Stream p\<rparr> s =
     (\<lparr>statusCode = 200, headers = hs, body = StreamEnded p ''500 Internal Server Error''\<rparr>,
      s\<lparr>console := console s @ [ConsoleError ''Error streaming file:'' e]\<rparr>)"
  by (simp add: streamErrorHandler_def)

text \<open>
  Claim C1 (every asset request whose reference resolves outside the base directory is
  answered 403 and not served) does not hold of the code.  With base directory \<open>/docs\<close>
  the request \<open>/assets/../docs-evil/secret.txt\<close> resolves to \<open>/docs-evil/secret.txt\<close>,
  which is not inside \<open>/docs\<close>; the string \<open>/docs\<close> is a prefix of it, so the test passes
  and the file, if readable, is streamed with status 200.
\<close>

theorem asset_sibling_directory_served:
  "requestHandler (\<lambda>p. True) (s\<lparr>baseDir := ''/docs''\<rparr>) res
       ''/assets/../docs-evil/secret.txt'' =
     (\<lparr>statusCode = 200, headers = [(''Content-Type'', ''text/plain'')],
       body = Stream ''/docs-evil/secret.txt''\<rparr>, s\<lparr>baseDir := ''/docs''\<rparr>)
   \<and> \<not> insideDirectory ''/docs'' ''/docs-evil/secret.txt''"
  by (simp add: eval_request insideDirectory_def components_def)

section \<open>Serving the snapshot\<close>

text \<open>
  Claim C6: a request for \<open>/\<close> is answered with status 200 and exactly the cached
  snapshot as its body, and the server is left as it was; no request, whatever its URL,
  changes the snapshot or starts a render.
\<close>

theorem root_serves_cached_snapshot:
  "requestHandler access s res ''/'' =
     (\<lparr>statusCode = 200, headers = [(''Content-Type'', ''text/html; charset=utf-8'')],
       body = End (cachedHtml s)\<rparr>, s)
   \<and> cachedHtml (step s (Request access res url)) = cachedHtml s
   \<and> rendersStarted (step s (Request access res url)) = rendersStarted s
   \<and> rendersInFlight (step s (Request access res url)) = rendersInFlight s"
  by (simp add: requestHandler_def Let_def split: option.splits)

section \<open>The size limit of a render\<close>

lemma createServer_too_large:
  "stat w (path_resolve dir [fp]) = Inr n \<Longrightarrow> 10 * 2 ^ 20 < n \<Longrightarrow>
     fst (createServer dir w listen fp opts) = Inl (FileTooLarge n)"
  by (simp add: createServer_def updateRenderedHtml_def renderMarkdown_def MAX_FILE_SIZE_def)

text \<open>
  Claim C7 (the threshold of 10 MiB is a default that can be configured) does not hold
  of the code: the threshold is the constant \<open>MAX_FILE_SIZE\<close>, \<open>renderMarkdown\<close> takes
  nothing but the path, and the options of \<open>createServer\<close> are the port and the watch
  flag.  Whatever the options, the server is not created for a file of 10 MiB plus one
  byte.
\<close>

theorem size_limit_not_configurable:
  "\<forall>opts. fst (createServer ''/home/user'' (exampleIo\<lparr>stat := \<lambda>p. Inr (10 * 2 ^ 20 + 1)\<rparr>)
                  (\<lambda>p. None) ''docs/readme.md'' opts)
            = Inl (FileTooLarge (10 * 2 ^ 20 + 1))"
  by (simp add: createServer_too_large)

text \<open>
  Claim C7 as amended: the threshold is fixed at 10 MiB (10 * 2^20 bytes).
  \<open>renderMarkdown\<close> fails when the file is larger than that, when \<open>stat\<close> fails and
  when \<open>readFile\<close> fails; for a readable file of at most 10 MiB the size test passes and
  the result is that of the pipeline on the file's contents.  No option of
  \<open>createServer\<close> changes the threshold: for every working directory, port outcome and
  options, the first render of a larger file fails with the size error.
\<close>

theorem renderMarkdown_size_limit:
  "(\<forall>n. stat w p = Inr n \<and> 10 * 2 ^ 20 < n \<longrightarrow> renderMarkdown w p = Inl (FileTooLarge n))
   \<and> (\<forall>e. stat w p = Inl e \<longrightarrow> renderMarkdown w p = Inl e)
   \<and> (\<forall>n e. stat w p = Inr n \<and> n \<le> 10 * 2 ^ 20 \<and> readFile w p = Inl e
          \<longrightarrow> renderMarkdown w p = Inl e)
   \<and> (\<forall>n c. stat w p = Inr n \<and> n \<le> 10 * 2 ^ 20 \<and> readFile w p = Inr c
          \<longrightarrow> renderMarkdown w p = process w c)
   \<and> MAX_FILE_SIZE = 10 * 2 ^ 20
   \<and> (\<forall>dir listen fp opts n. stat w (path_resolve dir [fp]) = Inr n \<and> 10 * 2 ^ 20 < n
          \<longrightarrow> fst (createServer dir w listen fp opts) = Inl (FileTooLarge n))"
  by (simp add: renderMarkdown_def MAX_FILE_SIZE_def createServer_too_large)

theorem renderMarkdown_size_limit_witness:
  "renderMarkdown (exampleIo\<lparr>stat := \<lambda>p. Inr (10 * 2 ^ 20 + 1)\<rparr>) ''/home/user/docs/readme.md''
     = Inl (FileTooLarge (10 * 2 ^ 20 + 1))
   \<and> renderMarkdown (exampleIo\<lparr>stat := \<lambda>p. Inr (10 * 2 ^ 20)\<rparr>) ''/home/user/docs/readme.md''
     = Inr ''<h1 id=\"title\">Title</h1>''
   \<and> renderMarkdown exampleIo ''/home/user/docs/missing.md'' = Inl (SystemError ''ENOENT'')
   \<and> renderMarkdown (exampleIo\<lparr>readFile := \<lambda>p. Inl (SystemError ''EACCES'')\<rparr>)
        ''/home/user/docs/readme.md'' = Inl (SystemError ''EACCES'')
   \<and> fst (createServer ''/home/user'' (exampleIo\<lparr>stat := \<lambda>p. Inr (10 * 2 ^ 20 + 1)\<rparr>)
             (\<lambda>p. None) ''docs/readme.md'' \<lparr>opt_port = Some 8080, opt_watch = Some True\<rparr>)
        = Inl (FileTooLarge (10 * 2 ^ 20 + 1))"
proof -
  note large = renderMarkdown_size_limit [of "exampleIo\<lparr>stat := \<lambda>p. Inr (10 * 2 ^ 20 + 1)\<rparr>"
      "''/home/user/docs/readme.md''"]
  from large have a:
    "renderMarkdown (exampleIo\<lparr>stat := \<lambda>p. Inr (10 * 2 ^ 20 + 1)\<rparr>) ''/home/user/docs/readme.md''
       = Inl (FileTooLarge (10 * 2 ^ 20 + 1))"
    by (simp add: exampleIo_def MAX_FILE_SIZE_def)
  from renderMarkdown_size_limit [of "exampleIo\<lparr>stat := \<lambda>p. Inr (10 * 2 ^ 20)\<rparr>"
      "''/home/user/docs/readme.md''"]
  have b:
    "renderMarkdown (exampleIo\<lparr>stat := \<lambda>p. Inr (10 * 2 ^ 20)\<rparr>) ''/home/user/docs/readme.md''
       = Inr ''<h1 id=\"title\">Title</h1>''"
    by (simp add: exampleIo_def MAX_FILE_SIZE_def)
  from renderMarkdown_size_limit [of exampleIo "''/home/user/docs/missing.md''"]
  have c: "renderMarkdown exampleIo ''/home/user/docs/missing.md'' = Inl (SystemError ''ENOENT'')"
    by (simp add: exampleIo_def MAX_FILE_SIZE_def)
  from renderMarkdown_size_limit [of "exampleIo\<lparr>readFile := \<lambda>p. Inl (SystemError ''EACCES'')\<rparr>"
      "''/home/user/docs/readme.md''"]
  have d:
    "renderMarkdown (exampleIo\<lparr>readFile := \<lambda>p. Inl (SystemError ''EACCES'')\<rparr>)
        ''/home/user/docs/readme.md'' = Inl (SystemError ''EACCES'')"
    by (simp add: exampleIo_def MAX_FILE_SIZE_def)
  have size:
    "stat (exampleIo\<lparr>stat := \<lambda>p. Inr (10 * 2 ^ 20 + 1)\<rparr>)
        (path_resolve ''/home/user'' [''docs/readme.md'']) = Inr (10 * 2 ^ 20 + 1)
     \<and> 10 * 2 ^ 20 < (10 * 2 ^ 20 + 1 :: nat)"
    by simp
  from large size have e:
    "fst (createServer ''/home/user'' (exampleIo\<lparr>stat := \<lambda>p. Inr (10 * 2 ^ 20 + 1)\<rparr>)
             (\<lambda>p. None) ''docs/readme.md'' \<lparr>opt_port = Some 8080, opt_watch = Some True\<rparr>)
        = Inl (FileTooLarge (10 * 2 ^ 20 + 1))"
    by blast
  from a b c d e show ?thesis by blast
qed

section \<open>Removing a connection\<close>

text \<open>
  Claim C8: removing a connection from the set is idempotent.  Removing it a second
  time changes nothing, removing a connection that is not in the set leaves the server
  as it is, and the removal has no failing path; after it the connection is not in the
  set.
\<close>

theorem connection_removal_idempotent:
  "step (step s (ConnectionClosed res)) (ConnectionClosed res) = step s (ConnectionClosed res)
   \<and> (res \<notin> set (sseClients s) \<longrightarrow> step s (ConnectionClosed res) = s)
   \<and> res \<notin> set (sseClients (step s (ConnectionClosed res)))"
  by (simp add: set_delete_def)

theorem connection_removal_idempotent_witness:
  "7 \<notin> set (sseClients exampleServer)
   \<and> step exampleServer (ConnectionClosed 7) = exampleServer
   \<and> sseClients (step exampleServer (Request (\<lambda>p. False) 7 ''/events'')) = [7]
   \<and> step (step (step exampleServer (Request (\<lambda>p. False) 7 ''/events''))
              (ConnectionClosed 7)) (ConnectionClosed 7)
      = step (step exampleServer (Request (\<lambda>p. False) 7 ''/events'')) (ConnectionClosed 7)"
  using connection_removal_idempotent [of exampleServer 7]
    connection_removal_idempotent [of "step exampleServer (Request (\<lambda>p. False) 7 ''/events'')" 7]
  by (simp add: exampleServer_created requestHandler_def set_add_def)

section \<open>The title of the page\<close>

text \<open>
  Claim C9: the document that \<open>generateHtml\<close> builds is, character for character, the
  fixed text of the head up to the opening \<open>title\<close> tag, then the escaped file name,
  then a text that starts with the closing \<open>title\<close> tag and is made of the stylesheet,
  the rendered content, the watch flag and fixed text only.  The file name occurs
  nowhere but in the \<open>title\<close> element, and there every \<open>&\<close>, \<open><\<close>, \<open>>\<close>, double
  quote and single quote of it is replaced by its entity and every other character is
  kept, so the escaped name contains none of \<open><\<close>, \<open>>\<close> and the two quotes.
\<close>

theorem title_holds_escaped_filename:
  \<open>generateHtml css content name live =
     ''<!DOCTYPE html>\<newline>''
     @ ''<html lang="en">\<newline>''
     @ ''<head>\<newline>''
     @ ''  <meta charset="UTF-8">\<newline>''
     @ ''  <meta name="viewport" content="width=device-width, initial-scale=1">\<newline>''
     @ ''  <meta name="color-scheme" content="light">\<newline>''
     @ ''  <title>''
     @ escapeHtml name
     @ ''</title>\<newline>''
     @ ''\<newline>''
     @ ''  <!-- GitHub Markdown CSS (inlined) -->\<newline>''
     @ ''  <style>\<newline>''
     @ css
     @ ''\<newline>''
     @ ''  </style>\<newline>''
     @ ''\<newline>''
     @ ''  <!-- Container and responsive styles -->\<newline>''
     @ ''  <style>\<newline>''
     @ '':root {\<newline>''
     @ ''  color-scheme: light;\<newline>''
     @ ''}\<newline>''
     @ ''\<newline>''
     @ ''/* Force light mode - override any dark mode styles */\<newline>''
     @ ''body {\<newline>''
     @ ''  box-sizing: border-box;\<newline>''
     @ ''  min-width: 200px;\<newline>''
     @ ''  max-width: 980px;\<newline>''
     @ ''  margin: 0 auto;\<newline>''
     @ ''  padding: 45px;\<newline>''
     @ ''  background-color: #ffffff !important;\<newline>''
     @ ''  color: #24292f !important;\<newline>''
     @ ''  color-scheme: light;\<newline>''
     @ ''}\<newline>''
     @ ''\<newline>''
     @ ''@media (max-width: 767px) {\<newline>''
     @ ''  body {\<newline>''
     @ ''    padding: 15px;\<newline>''
     @ ''  }\<newline>''
     @ ''}\<newline>''
     @ ''\<newline>''
     @ ''.markdown-body {\<newline>''
     @ ''  box-sizing: border-box;\<newline>''
     @ ''  color-scheme: light;\<newline>''
     @ ''  background-color: #ffffff !important;\<newline>''
     @ ''  color: #24292f !important;\<newline>''
     @ ''}\<newline>''
     @ ''\<newline>''
     @ ''/* Override dark mode media query */\<newline>''
     @ ''@media (prefers-color-scheme: dark) {\<newline>''
     @ ''  body,\<newline>''
     @ ''  .markdown-body {\<newline>''
     @ ''    background-color: #ffffff !important;\<newline>''
     @ ''    color: #24292f !important;\<newline>''
     @ ''  }\<newline>''
     @ ''}\<newline>''
     @ ''  </style>\<newline>''
     @ ''\<newline>''
     @ ''  <!-- GitHub-style syntax highlighting theme -->\<newline>''
     @ ''  <link rel="stylesheet" href="https://cdnjs.cloudflare.com/ajax/libs/highlight.js/11.9.0/styles/github.min.css" integrity="sha512-0aPQyyeZrWj9sCA46UlmWgKOP0mUipLQ6OZXu8l4IcAmD2u31EPEy9VcIMvl7SoAaKe8bLXZhYoMaE/in+gcgA==" crossorigin="anonymous" referrerpolicy="no-referrer">\<newline>''
     @ ''</head>\<newline>''
     @ ''<body>\<newline>''
     @ ''  <article class="markdown-body">\<newline>''
     @ content
     @ ''\<newline>''
     @ ''  </article>\<newline>''
     @ ''\<newline>''
     @ ''  ''
     @ (if live
        then ''<!-- Live reload script -->\<newline>''
             @ ''  <script>\<newline>''
             @ ''(function() {\<newline>''
             @ ''  const eventSource = new EventSource('' @ [CHR 0x27] @ ''/events'' @ [CHR 0x27] @ '');\<newline>''
             @ ''\<newline>''
             @ ''  eventSource.onmessage = function(event) {\<newline>''
             @ ''    if (event.data === '' @ [CHR 0x27] @ ''reload'' @ [CHR 0x27] @ '') {\<newline>''
             @ ''      console.log('' @ [CHR 0x27] @ ''File changed, reloading...'' @ [CHR 0x27] @ '');\<newline>''
             @ ''      location.reload();\<newline>''
             @ ''    }\<newline>''
             @ ''  };\<newline>''
             @ ''\<newline>''
             @ ''  eventSource.onerror = function(error) {\<newline>''
             @ ''    console.error('' @ [CHR 0x27] @ ''SSE connection error:'' @ [CHR 0x27] @ '', error);\<newline>''
             @ ''    // EventSource automatically attempts to reconnect\<newline>''
             @ ''  };\<newline>''
             @ ''\<newline>''
             @ ''  // Log when connection is established\<newline>''
             @ ''  eventSource.onopen = function() {\<newline>''
             @ ''    console.log('' @ [CHR 0x27] @ ''Live reload connected'' @ [CHR 0x27] @ '');\<newline>''
             @ ''  };\<newline>''
             @ ''})();\<newline>''
             @ ''  </script>''
        else [])
     @ ''\<newline>''
     @ ''</body>\<newline>''
     @ ''</html>''
   \<and> escapeHtml name =
       concat (map (\<lambda>c. if c = CHR ''&'' then ''&amp;''
                        else if c = CHR ''<'' then ''&lt;''
                        else if c = CHR ''>'' then ''&gt;''
                        else if c = CHR 0x22 then ''&quot;''
                        else if c = CHR 0x27 then ''&#39;''
                        else [c]) name)
   \<and> CHR ''<'' \<notin> set (escapeHtml name) \<and> CHR ''>'' \<notin> set (escapeHtml name)
   \<and> CHR 0x22 \<notin> set (escapeHtml name) \<and> CHR 0x27 \<notin> set (escapeHtml name)\<close>
proof -
  have document: \<open>generateHtml css content name live =
     ''<!DOCTYPE html>\<newline>''
     @ ''<html lang="en">\<newline>''
     @ ''<head>\<newline>''
     @ ''  <meta charset="UTF-8">\<newline>''
     @ ''  <meta name="viewport" content="width=device-width, initial-scale=1">\<newline>''
     @ ''  <meta name="color-scheme" content="light">\<newline>''
     @ ''  <title>''
     @ escapeHtml name
     @ ''</title>\<newline>''
     @ ''\<newline>''
     @ ''  <!-- GitHub Markdown CSS (inlined) -->\<newline>''
     @ ''  <style>\<newline>''
     @ css
     @ ''\<newline>''
     @ ''  </style>\<newline>''
     @ ''\<newline>''
     @ ''  <!-- Container and responsive styles -->\<newline>''
     @ ''  <style>\<newline>''
     @ '':root {\<newline>''
     @ ''  color-scheme: light;\<newline>''
     @ ''}\<newline>''
     @ ''\<newline>''
     @ ''/* Force light mode - override any dark mode styles */\<newline>''
     @ ''body {\<newline>''
     @ ''  box-sizing: border-box;\<newline>''
     @ ''  min-width: 200px;\<newline>''
     @ ''  max-width: 980px;\<newline>''
     @ ''  margin: 0 auto;\<newline>''
     @ ''  padding: 45px;\<newline>''
     @ ''  background-color: #ffffff !important;\<newline>''
     @ ''  color: #24292f !important;\<newline>''
     @ ''  color-scheme: light;\<newline>''
     @ ''}\<newline>''
     @ ''\<newline>''
     @ ''@media (max-width: 767px) {\<newline>''
     @ ''  body {\<newline>''
     @ ''    padding: 15px;\<newline>''
     @ ''  }\<newline>''
     @ ''}\<newline>''
     @ ''\<newline>''
     @ ''.markdown-body {\<newline>''
     @ ''  box-sizing: border-box;\<newline>''
     @ ''  color-scheme: light;\<newline>''
     @ ''  background-color: #ffffff !important;\<newline>''
     @ ''  color: #24292f !important;\<newline>''
     @ ''}\<newline>''
     @ ''\<newline>''
     @ ''/* Override dark mode media query */\<newline>''
     @ ''@media (prefers-color-scheme: dark) {\<newline>''
     @ ''  body,\<newline>''
     @ ''  .markdown-body {\<newline>''
     @ ''    background-color: #ffffff !important;\<newline>''
     @ ''    color: #24292f !important;\<newline>''
     @ ''  }\<newline>''
     @ ''}\<newline>''
     @ ''  </style>\<newline>''
     @ ''\<newline>''
     @ ''  <!-- GitHub-style syntax highlighting theme -->\<newline>''
     @ ''  <link rel="stylesheet" href="https://cdnjs.cloudflare.com/ajax/libs/highlight.js/11.9.0/styles/github.min.css" integrity="sha512-0aPQyyeZrWj9sCA46UlmWgKOP0mUipLQ6OZXu8l4IcAmD2u31EPEy9VcIMvl7SoAaKe8bLXZhYoMaE/in+gcgA==" crossorigin="anonymous" referrerpolicy="no-referrer">\<newline>''
     @ ''</head>\<newline>''
     @ ''<body>\<newline>''
     @ ''  <article class="markdown-body">\<newline>''
     @ content
     @ ''\<newline>''
     @ ''  </article>\<newline>''
     @ ''\<newline>''
     @ ''  ''
     @ (if live
        then ''<!-- Live reload script -->\<newline>''
             @ ''  <script>\<newline>''
             @ ''(function() {\<newline>''
             @ ''  const eventSource = new EventSource('' @ [CHR 0x27] @ ''/events'' @ [CHR 0x27] @ '');\<newline>''
             @ ''\<newline>''
             @ ''  eventSource.onmessage = function(event) {\<newline>''
             @ ''    if (event.data === '' @ [CHR 0x27] @ ''reload'' @ [CHR 0x27] @ '') {\<newline>''
             @ ''      console.log('' @ [CHR 0x27] @ ''File changed, reloading...'' @ [CHR 0x27] @ '');\<newline>''
             @ ''      location.reload();\<newline>''
             @ ''    }\<newline>''
             @ ''  };\<newline>''
             @ ''\<newline>''
             @ ''  eventSource.onerror = function(error) {\<newline>''
             @ ''    console.error('' @ [CHR 0x27] @ ''SSE connection error:'' @ [CHR 0x27] @ '', error);\<newline>''
             @ ''    // EventSource automatically attempts to reconnect\<newline>''
             @ ''  };\<newline>''
             @ ''\<newline>''
             @ ''  // Log when connection is established\<newline>''
             @ ''  eventSource.onopen = function() {\<newline>''
             @ ''    console.log('' @ [CHR 0x27] @ ''Live reload connected'' @ [CHR 0x27] @ '');\<newline>''
             @ ''  };\<newline>''
             @ ''})();\<newline>''
             @ ''  </script>''
        else [])
     @ ''\<newline>''
     @ ''</body>\<newline>''
     @ ''</html>''\<close>
    unfolding generateHtml_def CONTAINER_CSS_def SSE_CLIENT_SCRIPT_def lines_def q_def
    by simp
  have entities: "escapeHtml name =
       concat (map (\<lambda>c. if c = CHR ''&'' then ''&amp;''
                        else if c = CHR ''<'' then ''&lt;''
                        else if c = CHR ''>'' then ''&gt;''
                        else if c = CHR 0x22 then ''&quot;''
                        else if c = CHR 0x27 then ''&#39;''
                        else [c]) name)"
    by (induction name) (simp_all add: escapeHtml_Nil escapeHtml_Cons escapeChar_cases)
  from document entities escapeHtml_no_markup [of name] show ?thesis
    by blast
qed

section \<open>Watch mode disabled\<close>

lemma step_keeps_watch_off:
  "\<not> watch s \<and> sseClients s = [] \<Longrightarrow> \<not> watch (step s ev) \<and> sseClients (step s ev) = []"
proof (cases ev)
  case (Request access res url)
  then show "\<not> watch s \<and> sseClients s = [] \<Longrightarrow> ?thesis"
    by (simp add: requestHandler_def Let_def split: option.splits)
next
  case (ConnectionClosed res)
  then show "\<not> watch s \<and> sseClients s = [] \<Longrightarrow> ?thesis"
    by (simp add: set_delete_def)
next
  case (StreamFailed e r)
  then show "\<not> watch s \<and> sseClients s = [] \<Longrightarrow> ?thesis"
    by (simp add: streamErrorHandler_def)
next
  case FileChanged
  then show "\<not> watch s \<and> sseClients s = [] \<Longrightarrow> ?thesis"
    by (simp add: changeHandler_begin_def)
next
  case (RenderSettled w wr)
  then show "\<not> watch s \<and> sseClients s = [] \<Longrightarrow> ?thesis"
    by (simp add: changeHandler_resume_unchanged)
next
  case Close
  then show "\<not> watch s \<and> sseClients s = [] \<Longrightarrow> ?thesis"
    by (simp add: close_def Let_def)
qed

lemma run_keeps_watch_off:
  "\<not> watch s \<and> sseClients s = [] \<Longrightarrow> \<not> watch (run s evs) \<and> sseClients (run s evs) = []"
proof (induction evs arbitrary: s)
  case Nil
  then show ?case by (simp add: run_def)
next
  case (Cons ev evs)
  from Cons.IH [OF step_keeps_watch_off [OF Cons.prems, of ev]]
  show ?case by (simp add: run_def)
qed

lemma createServer_initial:
  "watch (snd (createServer dir w listen fp opts)) = (opt_watch opts = Some True)"
  "sseClients (snd (createServer dir w listen fp opts)) = []"
  by (auto simp: createServer_def updateRenderedHtml_def Let_def
           split: sum.splits option.splits prod.splits)

text \<open>
  Claim C10: when the server is created with watch mode off (the option absent or
  false), then after any sequence of events the set of viewer connections is empty, and
  a request for \<open>/events\<close> is answered 404 and leaves the server as it is.
\<close>

theorem watch_off_no_subscription:
  "opt_watch opts \<noteq> Some True \<Longrightarrow>
     sseClients (run (snd (createServer dir w listen fp opts)) evs) = []
     \<and> requestHandler access (run (snd (createServer dir w listen fp opts)) evs) res ''/events''
         = (notFound, run (snd (createServer dir w listen fp opts)) evs)"
proof -
  assume off: "opt_watch opts \<noteq> Some True"
  let ?s = "snd (createServer dir w listen fp opts)"
  from off have "\<not> watch ?s \<and> sseClients ?s = []"
    by (simp add: createServer_initial)
  then have inv: "\<not> watch (run ?s evs) \<and> sseClients (run ?s evs) = []"
    by (rule run_keeps_watch_off)
  then show ?thesis
    by (simp add: requestHandler_def startsWith_def)
qed

theorem watch_off_no_subscription_witness:
  "sseClients (run (snd (createServer ''/home/user'' exampleIo (\<lambda>p. None) ''docs/readme.md''
                           \<lparr>opt_port = Some 8080, opt_watch = None\<rparr>))
                 [Request (\<lambda>p. False) 1 ''/events'', FileChanged, ConnectionClosed 1]) = []
   \<and> fst (requestHandler (\<lambda>p. False)
        (run (snd (createServer ''/home/user'' exampleIo (\<lambda>p. None) ''docs/readme.md''
                           \<lparr>opt_port = Some 8080, opt_watch = None\<rparr>))
                 [Request (\<lambda>p. False) 1 ''/events'', FileChanged, ConnectionClosed 1])
        2 ''/events'') = notFound"
  using watch_off_no_subscription [of "\<lparr>opt_port = Some 8080, opt_watch = None\<rparr>"
      "''/home/user''" exampleIo "\<lambda>p. None" "''docs/readme.md''"
      "[Request (\<lambda>p. False) 1 ''/events'', FileChanged, ConnectionClosed 1]" "\<lambda>p. False" 2]
  by simp

section \<open>A re-render that fails\<close>

text \<open>The response to a request depends on the server only through these four variables.\<close>

lemma requestHandler_response_cong:
  "cachedHtml t = cachedHtml s \<Longrightarrow> watch t = watch s \<Longrightarrow> cwd t = cwd s \<Longrightarrow>
   baseDir t = baseDir s \<Longrightarrow>
   fst (requestHandler access t res url) = fst (requestHandler access s res url)"
  by (simp add: requestHandler_def Let_def split: option.splits)

lemma changeHandler_resume_failure:
  "renderMarkdown w (absoluteFilePath s) = Inl e \<Longrightarrow>
   changeHandler_resume w wr s =
     s\<lparr>rendersInFlight := rendersInFlight s - 1,
       console := console s @ [ConsoleError ''Error rendering markdown:'' e,
                               ConsoleError ''Error re-rendering after file change:'' e]\<rparr>"
  by (simp add: changeHandler_resume_def updateRenderedHtml_def)

lemma step_FileChanged_frame:
  "cachedHtml (step s FileChanged) = cachedHtml s"
  "delivered (step s FileChanged) = delivered s"
  "sseClients (step s FileChanged) = sseClients s"
  "listening (step s FileChanged) = listening s"
  "watch (step s FileChanged) = watch s"
  "cwd (step s FileChanged) = cwd s"
  "baseDir (step s FileChanged) = baseDir s"
  "absoluteFilePath (step s FileChanged) = absoluteFilePath s"
  by (simp_all add: changeHandler_begin_def)

text \<open>
  Claim C4: when the render of a re-render fails, the cached snapshot is the one it
  was, nothing is delivered to any viewer, the set of viewers and the listening server
  are as they were, and every request is answered as it would have been before.  This
  holds of each half of the listener (the change event that starts the render, and the
  moment the render settles with its error) and of the two in sequence.
\<close>

theorem failed_rerender_keeps_snapshot:
  "renderMarkdown w (absoluteFilePath s) = Inl e \<Longrightarrow>
     cachedHtml (step s (RenderSettled w wr)) = cachedHtml s
     \<and> delivered (step s (RenderSettled w wr)) = delivered s
     \<and> sseClients (step s (RenderSettled w wr)) = sseClients s
     \<and> listening (step s (RenderSettled w wr)) = listening s
     \<and> fst (requestHandler access (step s (RenderSettled w wr)) res url)
         = fst (requestHandler access s res url)
     \<and> cachedHtml (step s FileChanged) = cachedHtml s
     \<and> delivered (step s FileChanged) = delivered s
     \<and> sseClients (step s FileChanged) = sseClients s
     \<and> listening (step s FileChanged) = listening s
     \<and> fst (requestHandler access (step s FileChanged) res url)
         = fst (requestHandler access s res url)
     \<and> cachedHtml (run s [FileChanged, RenderSettled w wr]) = cachedHtml s
     \<and> delivered (run s [FileChanged, RenderSettled w wr]) = delivered s
     \<and> sseClients (run s [FileChanged, RenderSettled w wr]) = sseClients s
     \<and> listening (run s [FileChanged, RenderSettled w wr]) = listening s
     \<and> fst (requestHandler access (run s [FileChanged, RenderSettled w wr]) res url)
         = fst (requestHandler access s res url)"
proof -
  assume failure: "renderMarkdown w (absoluteFilePath s) = Inl e"
  have settle:
    "cachedHtml (step t (RenderSettled w wr)) = cachedHtml t
     \<and> watch (step t (RenderSettled w wr)) = watch t
     \<and> cwd (step t (RenderSettled w wr)) = cwd t
     \<and> baseDir (step t (RenderSettled w wr)) = baseDir t
     \<and> delivered (step t (RenderSettled w wr)) = delivered t
     \<and> sseClients (step t (RenderSettled w wr)) = sseClients t
     \<and> listening (step t (RenderSettled w wr)) = listening t"
    if "absoluteFilePath t = absoluteFilePath s" for t
    using that failure by (simp add: changeHandler_resume_failure)
  let ?b = "step s FileChanged"
  let ?t = "step s (RenderSettled w wr)"
  let ?r = "run s [FileChanged, RenderSettled w wr]"
  have r: "?r = step ?b (RenderSettled w wr)"
    by (simp add: run_def)
  note b = step_FileChanged_frame [of s]
  from settle [of s] have t:
    "cachedHtml ?t = cachedHtml s" "watch ?t = watch s" "cwd ?t = cwd s" "baseDir ?t = baseDir s"
    "delivered ?t = delivered s" "sseClients ?t = sseClients s" "listening ?t = listening s"
    by simp_all
  from settle [of ?b] b r have rr:
    "cachedHtml ?r = cachedHtml s" "watch ?r = watch s" "cwd ?r = cwd s" "baseDir ?r = baseDir s"
    "delivered ?r = delivered s" "sseClients ?r = sseClients s" "listening ?r = listening s"
    by simp_all
  from t(1-4) have qt: "fst (requestHandler access ?t res url) = fst (requestHandler access s res url)"
    by (rule requestHandler_response_cong)
  from b(1) b(5) b(6) b(7)
  have qb: "fst (requestHandler access ?b res url) = fst (requestHandler access s res url)"
    by (rule requestHandler_response_cong)
  from rr(1-4) have qr: "fst (requestHandler access ?r res url) = fst (requestHandler access s res url)"
    by (rule requestHandler_response_cong)
  from t(1) t(5) t(6) t(7) qt b(1) b(2) b(3) b(4) qb rr(1) rr(5) rr(6) rr(7) qr
  show ?thesis by blast
qed

theorem failed_rerender_keeps_snapshot_witness:
  "cachedHtml (run (step exampleServer (Request (\<lambda>p. False) 7 ''/events''))
       [FileChanged,
        RenderSettled (exampleIo\<lparr>stat := \<lambda>p. Inr (10 * 2 ^ 20 + 1)\<rparr>) (\<lambda>c. Delivered)])
     = Some (generateHtml [] ''<h1 id=\"title\">Title</h1>'' ''readme.md'' True)
   \<and> delivered (run (step exampleServer (Request (\<lambda>p. False) 7 ''/events''))
       [FileChanged,
        RenderSettled (exampleIo\<lparr>stat := \<lambda>p. Inr (10 * 2 ^ 20 + 1)\<rparr>) (\<lambda>c. Delivered)]) = []
   \<and> sseClients (run (step exampleServer (Request (\<lambda>p. False) 7 ''/events''))
       [FileChanged,
        RenderSettled (exampleIo\<lparr>stat := \<lambda>p. Inr (10 * 2 ^ 20 + 1)\<rparr>) (\<lambda>c. Delivered)]) = [7]
   \<and> listening (run (step exampleServer (Request (\<lambda>p. False) 7 ''/events''))
       [FileChanged,
        RenderSettled (exampleIo\<lparr>stat := \<lambda>p. Inr (10 * 2 ^ 20 + 1)\<rparr>) (\<lambda>c. Delivered)])"
proof -
  have failure:
    "renderMarkdown (exampleIo\<lparr>stat := \<lambda>p. Inr (10 * 2 ^ 20 + 1)\<rparr>)
       (absoluteFilePath (step exampleServer (Request (\<lambda>p. False) 7 ''/events'')))
     = Inl (FileTooLarge (10 * 2 ^ 20 + 1))"
    by (simp add: exampleServer_created requestHandler_def set_add_def renderMarkdown_def
          MAX_FILE_SIZE_def exampleIo_def)
  have start:
    "cachedHtml (step exampleServer (Request (\<lambda>p. False) 7 ''/events''))
       = Some (generateHtml [] ''<h1 id=\"title\">Title</h1>'' ''readme.md'' True)"
    "delivered (step exampleServer (Request (\<lambda>p. False) 7 ''/events'')) = []"
    "sseClients (step exampleServer (Request (\<lambda>p. False) 7 ''/events'')) = [7]"
    "listening (step exampleServer (Request (\<lambda>p. False) 7 ''/events''))"
    by (simp_all add: exampleServer_created requestHandler_def set_add_def)
  from failed_rerender_keeps_snapshot [OF failure, of "\<lambda>c. Delivered" "\<lambda>p. False" 0 "''/''"] start
  show ?thesis by simp
qed

section \<open>Start-up\<close>

text \<open>
  Claim C5: \<open>createServer\<close> renders before it listens.  If the first render fails with
  an error, the promise is rejected with that error and the server is not listening,
  has no watcher and no snapshot.  Whenever the server is listening, the promise was
  fulfilled and the snapshot is the document generated from the rendered file; and a
  fulfilled promise means the server is listening.
\<close>

theorem initial_render_first:
  "(renderMarkdown w (path_resolve dir [fp]) = Inl e \<longrightarrow>
      fst (createServer dir w listen fp opts) = Inl e
      \<and> \<not> listening (snd (createServer dir w listen fp opts))
      \<and> \<not> fileWatcher (snd (createServer dir w listen fp opts))
      \<and> cachedHtml (snd (createServer dir w listen fp opts)) = None)
   \<and> (listening (snd (createServer dir w listen fp opts)) \<longrightarrow>
        fst (createServer dir w listen fp opts) = Inr ()
        \<and> (\<exists>content. renderMarkdown w (path_resolve dir [fp]) = Inr content
              \<and> cachedHtml (snd (createServer dir w listen fp opts)) =
                  Some (generateHtml (githubCss w) content (path_basename (path_resolve dir [fp]))
                          (opt_watch opts = Some True))))
   \<and> (fst (createServer dir w listen fp opts) = Inr () \<longrightarrow>
        listening (snd (createServer dir w listen fp opts)))"
  by (auto simp: createServer_def updateRenderedHtml_def Let_def
           split: sum.splits option.splits prod.splits if_splits)

theorem initial_render_first_witness:
  "fst (createServer ''/home/user'' exampleIo (\<lambda>p. None) ''docs/missing.md''
          \<lparr>opt_port = None, opt_watch = Some True\<rparr>) = Inl (SystemError ''ENOENT'')
   \<and> \<not> listening (snd (createServer ''/home/user'' exampleIo (\<lambda>p. None) ''docs/missing.md''
          \<lparr>opt_port = None, opt_watch = Some True\<rparr>))
   \<and> listening exampleServer
   \<and> cachedHtml exampleServer
        = Some (generateHtml [] ''<h1 id=\"title\">Title</h1>'' ''readme.md'' True)"
  using initial_render_first [of exampleIo "''/home/user''" "''docs/missing.md''"
      "SystemError ''ENOENT''" "\<lambda>p. None" "\<lparr>opt_port = None, opt_watch = Some True\<rparr>"]
    initial_render_first [of exampleIo "''/home/user''" "''docs/readme.md''"
      "SystemError ''ENOENT''" "\<lambda>p. None" "\<lparr>opt_port = None, opt_watch = Some True\<rparr>"]
  by (simp add: exampleServer_created renderMarkdown_def exampleIo_def path_resolve_def
        normalizeString_def splitOn_def)

section \<open>Change events while a render is in flight\<close>

lemma step_counts:
  "fileWatcher s \<Longrightarrow> \<not> isClose ev \<Longrightarrow>
     fileWatcher (step s ev)
     \<and> rendersStarted (step s ev) = rendersStarted s + (if isFileChanged ev then 1 else 0)"
  by (cases ev)
     (simp_all add: requestHandler_def Let_def changeHandler_begin_def streamErrorHandler_def
        changeHandler_resume_unchanged split: option.splits)

lemma run_counts:
  "fileWatcher s \<Longrightarrow> list_all (\<lambda>ev. \<not> isClose ev) evs \<Longrightarrow>
     rendersStarted (run s evs) = rendersStarted s + length (filter isFileChanged evs)"
proof (induction evs arbitrary: s)
  case Nil
  then show ?case by (simp add: run_def)
next
  case (Cons ev evs)
  from Cons.prems have w: "fileWatcher (step s ev)"
    and c: "rendersStarted (step s ev) = rendersStarted s + (if isFileChanged ev then 1 else 0)"
    using step_counts [of s ev] by simp_all
  from Cons.prems have "list_all (\<lambda>ev. \<not> isClose ev) evs" by simp
  from Cons.IH [OF w this] c show ?case by (simp add: run_def)
qed

lemma run_changes:
  "fileWatcher s \<Longrightarrow>
     fileWatcher (run s (replicate n FileChanged))
     \<and> rendersInFlight (run s (replicate n FileChanged)) = rendersInFlight s + n"
proof (induction n arbitrary: s)
  case 0
  then show ?case by (simp add: run_def)
next
  case (Suc n)
  from Suc.prems have "fileWatcher (step s FileChanged)"
    by (simp add: changeHandler_begin_def)
  from Suc.IH [OF this] Suc.prems show ?case
    by (simp add: run_def changeHandler_begin_def)
qed

text \<open>
  Claim C2 (re-renders are never concurrent; a change that arrives during a render is
  coalesced into at most one further render) does not hold of the code: the listener
  has no guard.  On the example server two changes in a row leave two renders in
  flight, and four changes start four renders.
\<close>

theorem changes_during_render_not_coalesced:
  "rendersInFlight (run exampleServer [FileChanged, FileChanged]) = 2
   \<and> rendersStarted (run exampleServer [FileChanged, FileChanged, FileChanged, FileChanged])
       = rendersStarted exampleServer + 4"
  by (simp add: run_def exampleServer_created changeHandler_begin_def)

text \<open>
  Claim C2 as amended: while the watcher runs, every change event starts a render of
  its own at once, whatever is in flight.  \<open>n\<close> changes in a row add \<open>n\<close> renders in
  flight, and over any sequence of events without a \<open>close\<close> the number of renders
  started grows by the number of change events.
\<close>

theorem every_change_starts_a_render:
  "fileWatcher s \<Longrightarrow>
     rendersInFlight (run s (replicate n FileChanged)) = rendersInFlight s + n
     \<and> (list_all (\<lambda>ev. \<not> isClose ev) evs \<longrightarrow>
          rendersStarted (run s evs) = rendersStarted s + length (filter isFileChanged evs))"
  using run_changes [of s n] run_counts [of s evs] by simp

theorem every_change_starts_a_render_witness:
  "rendersInFlight (run exampleServer (replicate 3 FileChanged)) = 3
   \<and> rendersStarted (run exampleServer
        [FileChanged, Request (\<lambda>p. False) 1 ''/'', FileChanged,
         RenderSettled exampleIo (\<lambda>c. Delivered), FileChanged]) = 4"
  using every_change_starts_a_render [of exampleServer 3
      "[FileChanged, Request (\<lambda>p. False) 1 ''/'', FileChanged,
        RenderSettled exampleIo (\<lambda>c. Delivered), FileChanged]"]
  by (simp add: exampleServer_created)

section \<open>Notifying the viewers\<close>

lemma notifyClients_no_throw:
  "list_all (\<lambda>c. wr c = Delivered \<or> wr c = Dropped) cs \<Longrightarrow>
     notifyClients wr cs s =
       (Inr (), s\<lparr>delivered := delivered s @ map (\<lambda>c. (c, reload)) (filter (\<lambda>c. wr c = Delivered) cs)\<rparr>)"
proof (induction cs arbitrary: s)
  case Nil
  then show ?case by simp
next
  case (Cons c cs)
  then show ?case by (auto simp: reload_def)
qed

lemma updateRenderedHtml_success:
  "renderMarkdown w (absoluteFilePath s) = Inr content \<Longrightarrow>
     updateRenderedHtml w s =
       (Inr (generateHtml (githubCss w) content (filename s) (watch s)),
        s\<lparr>cachedHtml := Some (generateHtml (githubCss w) content (filename s) (watch s))\<rparr>)"
  by (simp add: updateRenderedHtml_def Let_def)

text \<open>
  A connection leaves the set only when its request closes or the server is closed:
  every other event keeps it.
\<close>

lemma viewer_removed_only_by_close:
  "c \<in> set (sseClients s) \<Longrightarrow> \<not> isClose ev \<Longrightarrow> ev \<noteq> ConnectionClosed c \<Longrightarrow>
     c \<in> set (sseClients (step s ev))"
  by (cases ev)
     (auto simp: requestHandler_def Let_def set_add_def set_delete_def streamErrorHandler_def
        changeHandler_begin_def changeHandler_resume_unchanged split: option.splits)

text \<open>
  Claim C3 (a viewer whose write fails is removed from the set) does not hold of the
  code: nothing in the notify loop removes a connection.  On the example server with
  viewers 1 and 2, after a successful re-render whose write to viewer 1 is not
  delivered, viewer 1 is still in the set.
\<close>

theorem failed_delivery_not_removed:
  "1 \<in> set (sseClients (run exampleServer
       [Request (\<lambda>p. False) 1 ''/events'', Request (\<lambda>p. False) 2 ''/events'', FileChanged,
        RenderSettled exampleIo (\<lambda>c. if c = 1 then Dropped else Delivered)]))"
  by (simp add: run_def exampleServer_created requestHandler_def set_add_def
        changeHandler_begin_def changeHandler_resume_unchanged)

text \<open>
  Claim C3 as amended: the notify phase after a successful re-render leaves the set of
  connections as it is, also when a write fails; and when no write throws, the reload
  chunk is delivered to every connection of the set whose write succeeds, in the order
  of the set, whatever happened to the others.
\<close>

theorem failed_delivery_keeps_connection:
  "renderMarkdown w (absoluteFilePath s) = Inr content \<Longrightarrow>
     sseClients (changeHandler_resume w wr s) = sseClients s
     \<and> (list_all (\<lambda>c. wr c = Delivered \<or> wr c = Dropped) (sseClients s) \<longrightarrow>
          delivered (changeHandler_resume w wr s) =
            delivered s @ map (\<lambda>c. (c, reload)) (filter (\<lambda>c. wr c = Delivered) (sseClients s)))"
proof -
  assume success: "renderMarkdown w (absoluteFilePath s) = Inr content"
  have kept: "sseClients (changeHandler_resume w wr s) = sseClients s"
    by (rule changeHandler_resume_unchanged)
  from success have
    "list_all (\<lambda>c. wr c = Delivered \<or> wr c = Dropped) (sseClients s) \<longrightarrow>
       delivered (changeHandler_resume w wr s) =
         delivered s @ map (\<lambda>c. (c, reload)) (filter (\<lambda>c. wr c = Delivered) (sseClients s))"
    by (simp add: changeHandler_resume_def updateRenderedHtml_success notifyClients_no_throw)
  with kept show ?thesis by blast
qed

theorem failed_delivery_keeps_connection_witness:
  "sseClients (changeHandler_resume exampleIo (\<lambda>c. if c = 1 then Dropped else Delivered)
       (exampleServer\<lparr>sseClients := [1, 2, 3]\<rparr>)) = [1, 2, 3]
   \<and> delivered (changeHandler_resume exampleIo (\<lambda>c. if c = 1 then Dropped else Delivered)
       (exampleServer\<lparr>sseClients := [1, 2, 3]\<rparr>)) = [(2, reload), (3, reload)]"
  using failed_delivery_keeps_connection [of exampleIo "exampleServer\<lparr>sseClients := [1, 2, 3]\<rparr>"
      "''<h1 id=\"title\">Title</h1>''" "\<lambda>c. if c = 1 then Dropped else Delivered"]
  by (simp add: exampleServer_created renderMarkdown_def exampleIo_def MAX_FILE_SIZE_def)

end
